theory Spec2Isabelle
  imports Complex_Main "HOL-Library.Word"
begin

section \<open>Data model\<close>

text \<open>
  The bitmap operations of \<^verbatim>\<open>UImageIOLibraryBPLibrary\<close>
  (\<^verbatim>\<open>Source/ImageIOLibrary/Private/ImageIOLibraryBPLibrary.cpp\<close>) work on
  \<^verbatim>\<open>TArray<FColor>\<close>: a bitmap is a list of pixels, a pixel is four
  \<^verbatim>\<open>uint8\<close> channels.

  The engine's \<^verbatim>\<open>FColor\<close> has the fields \<^verbatim>\<open>R, G, B, A\<close> and
  \<^verbatim>\<open>FImageSize\<close> the fields \<^verbatim>\<open>X, Y\<close>. A record field is a constant of the
  theory, and one-letter constants would capture the variables of every later statement,
  so the fields are spelled out here: \<open>Red, Green, Blue, Alpha\<close> and \<open>SizeX, SizeY\<close>.
  For the same reason the members \<^verbatim>\<open>R, G, B, A\<close> of \<^verbatim>\<open>EFilterColourChannel\<close>
  carry the prefix \<open>Ch\<close>.
\<close>

type_synonym uint8 = "8 word"

record FColor =
  Red :: uint8
  Green :: uint8
  Blue :: uint8
  Alpha :: uint8

text \<open>
  The four-argument constructor \<^verbatim>\<open>FColor(InR, InG, InB, InA)\<close>.
\<close>

definition FColor4 :: "uint8 \<Rightarrow> uint8 \<Rightarrow> uint8 \<Rightarrow> uint8 \<Rightarrow> FColor" where
  "FColor4 r g b a = \<lparr>Red = r, Green = g, Blue = b, Alpha = a\<rparr>"

text \<open>
  With three arguments the engine's constructor takes its default for the fourth,
  \<^verbatim>\<open>FColor(uint8 InR, uint8 InG, uint8 InB, uint8 InA = 255)\<close>: the colour is opaque.
  The constructor is engine code (\<^verbatim>\<open>Math/Color.h\<close>), not a source of this repository;
  \<^verbatim>\<open>SetBitmapContrast\<close> and \<^verbatim>\<open>SetBitmapBrightness\<close> call it this way. The call
  passes no alpha, so the alpha of the colour it builds does not depend on the pixel the
  three channels were computed from.
\<close>

definition FColor3 :: "uint8 \<Rightarrow> uint8 \<Rightarrow> uint8 \<Rightarrow> FColor" where
  "FColor3 r g b = FColor4 r g b 255"

text \<open>
  \<^verbatim>\<open>FColor::operator+=\<close> (engine code): each channel is summed in \<^verbatim>\<open>int32\<close> and
  cut at 255,
  \<^verbatim>\<open>R = (uint8) FMath::Min((int32) R + (int32) C.R, 255)\<close>, and the same for G, B and A.
\<close>

definition add_channel :: "uint8 \<Rightarrow> uint8 \<Rightarrow> uint8" where
  "add_channel a c = word_of_int (min (uint a + uint c) 255)"

definition FColor_add :: "FColor \<Rightarrow> FColor \<Rightarrow> FColor" where
  "FColor_add p c =
     \<lparr>Red = add_channel (Red p) (Red c),
      Green = add_channel (Green p) (Green c),
      Blue = add_channel (Blue p) (Blue c),
      Alpha = add_channel (Alpha p) (Alpha c)\<rparr>"

section \<open>Blend of two bitmaps: addition\<close>

text \<open>
  \<^verbatim>\<open>OutBitmap.Add(pixel)\<close> in a counting loop
  \<^verbatim>\<open>for (int i = 0; i < minIndex; i++)\<close>: the pixel of every index is appended to the
  output, in order.
\<close>

definition for_Add :: "nat \<Rightarrow> (nat \<Rightarrow> 'a) \<Rightarrow> 'a list" where
  "for_Add n body = foldl (\<lambda>Out i. Out @ [body i]) [] [0..<n]"

text \<open>
  The test of \<^verbatim>\<open>Add_Bitmap\<close> is written
  \<^verbatim>\<open>BitmapA[i].A == BitmapB[i].A == 0\<close>. C++ reads it from the left:
  \<^verbatim>\<open>(BitmapA[i].A == BitmapB[i].A) == 0\<close>, the truth value of the first comparison
  (0 or 1) compared with 0.
\<close>

definition alpha_test :: "FColor \<Rightarrow> FColor \<Rightarrow> bool" where
  "alpha_test a b = ((of_bool (Alpha a = Alpha b) :: int) = 0)"

definition Add_pixel :: "FColor \<Rightarrow> FColor \<Rightarrow> FColor" where
  "Add_pixel a b = (if alpha_test a b then FColor4 0 0 0 0 else FColor_add a b)"

definition Add_Bitmap :: "FColor list \<Rightarrow> FColor list \<Rightarrow> FColor list" where
  "Add_Bitmap BitmapA BitmapB =
     (if length BitmapA > 0 \<and> length BitmapB > 0 then
        (let minIndex = (if length BitmapA < length BitmapB
                         then length BitmapA else length BitmapB)
         in for_Add minIndex (\<lambda>i. Add_pixel (BitmapA ! i) (BitmapB ! i)))
      else [])"

section \<open>Engine arithmetic\<close>

text \<open>
  The functions of this section are engine code (\<^verbatim>\<open>FMath\<close>, \<^verbatim>\<open>FColor\<close>,
  \<^verbatim>\<open>FLinearColor\<close>, \<^verbatim>\<open>TArray\<close>), called by the sources of the repository and not
  part of them.

  A \<^verbatim>\<open>float\<close> or \<^verbatim>\<open>double\<close> that the caller passes in (brightness, contrast, the
  weights, factor and bias of a filter) is taken to be finite and is modelled by the real
  number it denotes; the rounding of inexact results is not modelled. The statements below
  either do not depend on the numeric value at all (lengths, the alpha channel, the
  absence of failure) or evaluate operations whose results binary32 represents exactly.
\<close>

text \<open>
  \<^verbatim>\<open>FMath::Clamp(X, Min, Max)\<close> is \<^verbatim>\<open>X<Min ? Min : X<Max ? X : Max\<close>.
\<close>

definition Clamp :: "'a::ord \<Rightarrow> 'a \<Rightarrow> 'a \<Rightarrow> 'a" where
  "Clamp X MinV MaxV = (if X < MinV then MinV else if X < MaxV then X else MaxV)"

text \<open>
  A channel in arithmetic: \<^verbatim>\<open>uint8\<close> is promoted to \<^verbatim>\<open>int\<close>, and converted from
  there to \<^verbatim>\<open>float\<close> where the other operand is one.
\<close>

definition promote :: "uint8 \<Rightarrow> int" where
  "promote c = uint c"

text \<open>
  C++ integer division rounds towards zero (HOL's \<open>div\<close> rounds down).
\<close>

definition cdiv :: "int \<Rightarrow> int \<Rightarrow> int" where
  "cdiv a b = sgn a * sgn b * (\<bar>a\<bar> div \<bar>b\<bar>)"

text \<open>
  The conversion of a \<^verbatim>\<open>float\<close> to \<^verbatim>\<open>uint8\<close> drops the fraction. For a value
  outside 0..255 the model keeps the low eight bits of the integer part, the wrap-around
  of the compiled conversion.
\<close>

definition trunc_toward_zero :: "real \<Rightarrow> int" where
  "trunc_toward_zero x = (if 0 \<le> x then \<lfloor>x\<rfloor> else \<lceil>x\<rceil>)"

definition to_uint8 :: "real \<Rightarrow> uint8" where
  "to_uint8 x = word_of_int (trunc_toward_zero x)"

text \<open>
  \<^verbatim>\<open>FMath::GetMappedRangeValueClamped\<close> and what it calls:
  \<^verbatim>\<open>IsNearlyZero\<close> (tolerance \<^verbatim>\<open>SMALL_NUMBER\<close>, 1.e-8), \<^verbatim>\<open>GetRangePct\<close>,
  \<^verbatim>\<open>Lerp\<close>.
\<close>

definition IsNearlyZero :: "real \<Rightarrow> bool" where
  "IsNearlyZero v = (\<bar>v\<bar> \<le> 1 / 100000000)"

definition GetRangePct :: "real \<Rightarrow> real \<Rightarrow> real \<Rightarrow> real" where
  "GetRangePct MinValue MaxValue Value =
     (let Divisor = MaxValue - MinValue
      in if IsNearlyZero Divisor then (if Value \<ge> MaxValue then 1 else 0)
         else (Value - MinValue) / Divisor)"

definition Lerp :: "real \<Rightarrow> real \<Rightarrow> real \<Rightarrow> real" where
  "Lerp A B AlphaV = A + AlphaV * (B - A)"

definition GetMappedRangeValueClamped :: "real \<times> real \<Rightarrow> real \<times> real \<Rightarrow> real \<Rightarrow> real" where
  "GetMappedRangeValueClamped InputRange OutputRange Value =
     (let ClampedPct = Clamp (GetRangePct (fst InputRange) (snd InputRange) Value) 0 1
      in Lerp (fst OutputRange) (snd OutputRange) ClampedPct)"

subsection \<open>Failures\<close>

text \<open>
  What the code can run into: a read of a \<^verbatim>\<open>TArray\<close> outside its bounds (the range
  check of \<^verbatim>\<open>operator[]\<close>), an insertion outside \<open>0..Num()\<close>, and the conversion to
  an integer of a \<^verbatim>\<open>float\<close> that is not a number or is infinite.
\<close>

datatype error =
  BitmapIndexOutOfRange | FilterIndexOutOfRange | InsertIndexOutOfRange | NonFiniteToInt

definition bindE :: "error + 'a \<Rightarrow> ('a \<Rightarrow> error + 'b) \<Rightarrow> error + 'b" where
  "bindE m f = (case m of Inl e \<Rightarrow> Inl e | Inr v \<Rightarrow> f v)"

text \<open>
  A loop whose body may fail: the state is threaded through the iterations, the first
  failure ends the loop.
\<close>

fun forM :: "'i list \<Rightarrow> 's \<Rightarrow> ('i \<Rightarrow> 's \<Rightarrow> error + 's) \<Rightarrow> error + 's" where
  "forM [] s body = Inr s"
| "forM (i # rest) s body =
     (case body i s of Inl e \<Rightarrow> Inl e | Inr s' \<Rightarrow> forM rest s' body)"

text \<open>
  The values of \<^verbatim>\<open>i\<close> in \<^verbatim>\<open>for (int i = 0; i < n; i++)\<close>: none when \<open>n \<le> 0\<close>.
\<close>

definition for_range :: "int \<Rightarrow> int list" where
  "for_range n = map int [0..<nat n]"

text \<open>
  \<^verbatim>\<open>TArray::operator[]\<close> and \<^verbatim>\<open>TArray::EmplaceAt\<close>.
\<close>

definition array_at :: "'a list \<Rightarrow> int \<Rightarrow> error \<Rightarrow> error + 'a" where
  "array_at xs i e = (if 0 \<le> i \<and> i < int (length xs) then Inr (xs ! nat i) else Inl e)"

definition EmplaceAt :: "'a list \<Rightarrow> int \<Rightarrow> 'a \<Rightarrow> error + 'a list" where
  "EmplaceAt xs i v =
     (if 0 \<le> i \<and> i \<le> int (length xs)
      then Inr (take (nat i) xs @ v # drop (nat i) xs)
      else Inl InsertIndexOutOfRange)"

subsection \<open>Floating point values that a division can produce\<close>

text \<open>
  \<^verbatim>\<open>Divide_Bitmap\<close> divides by channels that can be zero, so its intermediate values
  range over the IEEE special values as well. Signed zeros are not told apart: the
  divisors of the code come from 8-bit channels and are never negative.
\<close>

datatype float = Finite real | PosInf | NegInf | NaN

fun fless :: "float \<Rightarrow> float \<Rightarrow> bool" where
  "fless (Finite a) (Finite b) = (a < b)"
| "fless (Finite a) PosInf = True"
| "fless NegInf (Finite b) = True"
| "fless NegInf PosInf = True"
| "fless _ _ = False"

fun fsign :: "float \<Rightarrow> real" where
  "fsign (Finite a) = sgn a"
| "fsign PosInf = 1"
| "fsign NegInf = - 1"
| "fsign NaN = 0"

definition signed_inf :: "real \<Rightarrow> float" where
  "signed_inf s = (if s = 0 then NaN else if 0 < s then PosInf else NegInf)"

fun fmul :: "float \<Rightarrow> float \<Rightarrow> float" where
  "fmul (Finite a) (Finite b) = Finite (a * b)"
| "fmul NaN _ = NaN"
| "fmul _ NaN = NaN"
| "fmul x y = signed_inf (fsign x * fsign y)"

fun fdiv :: "float \<Rightarrow> float \<Rightarrow> float" where
  "fdiv (Finite a) (Finite b) = (if b = 0 then signed_inf (sgn a) else Finite (a / b))"
| "fdiv NaN _ = NaN"
| "fdiv _ NaN = NaN"
| "fdiv (Finite a) _ = Finite 0"
| "fdiv x (Finite b) = signed_inf (fsign x * (if b < 0 then - 1 else 1))"
| "fdiv _ _ = NaN"

text \<open>
  \<^verbatim>\<open>FMath::Clamp\<close> at \<^verbatim>\<open>float\<close>: a comparison with a NaN is false.
\<close>

definition ClampF :: "float \<Rightarrow> float \<Rightarrow> float \<Rightarrow> float" where
  "ClampF X MinV MaxV = (if fless X MinV then MinV else if fless X MaxV then X else MaxV)"

definition FloorToInt :: "float \<Rightarrow> error + int" where
  "FloorToInt F = (case F of Finite x \<Rightarrow> Inr \<lfloor>x\<rfloor> | _ \<Rightarrow> Inl NonFiniteToInt)"

subsection \<open>Linear colours\<close>

record FLinearColor =
  LinR :: float
  LinG :: float
  LinB :: float
  LinA :: float

text \<open>
  The converting constructor \<^verbatim>\<open>FLinearColor(const FColor&)\<close> reads R, G and B from the
  engine's table \<^verbatim>\<open>sRGBToLinearTable\<close> (256 entries) and sets
  \<^verbatim>\<open>A = float(Color.A) * OneOver255\<close>. The table is not a source of this repository: it
  is a parameter of everything that converts.
\<close>

definition OneOver255 :: float where
  "OneOver255 = Finite (1 / 255)"

definition FLinearColor_of :: "(uint8 \<Rightarrow> float) \<Rightarrow> FColor \<Rightarrow> FLinearColor" where
  "FLinearColor_of sRGBToLinearTable Color =
     \<lparr>LinR = sRGBToLinearTable (Red Color),
      LinG = sRGBToLinearTable (Green Color),
      LinB = sRGBToLinearTable (Blue Color),
      LinA = fmul (Finite (real_of_int (promote (Alpha Color)))) OneOver255\<rparr>"

text \<open>
  \<^verbatim>\<open>FLinearColor::ToFColor(false)\<close>: every channel is clamped to [0,1] and becomes
  \<^verbatim>\<open>FMath::FloorToInt(Float * 255.999f)\<close>; A is assigned first, then R, G, B.
\<close>

definition quantize :: "float \<Rightarrow> error + uint8" where
  "quantize Float = bindE (FloorToInt (fmul Float (Finite (255999 / 1000))))
     (\<lambda>n. Inr (word_of_int n))"

definition ToFColor :: "FLinearColor \<Rightarrow> error + FColor" where
  "ToFColor c =
     (let FloatR = ClampF (LinR c) (Finite 0) (Finite 1);
          FloatG = ClampF (LinG c) (Finite 0) (Finite 1);
          FloatB = ClampF (LinB c) (Finite 0) (Finite 1);
          FloatA = ClampF (LinA c) (Finite 0) (Finite 1)
      in bindE (quantize FloatA) (\<lambda>a.
         bindE (quantize FloatR) (\<lambda>r.
         bindE (quantize FloatG) (\<lambda>g.
         bindE (quantize FloatB) (\<lambda>b.
           Inr (FColor4 r g b a))))))"

section \<open>Contrast and brightness\<close>

text \<open>
  \<^verbatim>\<open>for (FColor pixel : Bitmap) OutBitmap.Add(...)\<close>.
\<close>

definition for_each :: "'a list \<Rightarrow> ('a \<Rightarrow> 'b) \<Rightarrow> 'b list" where
  "for_each Bitmap body = foldl (\<lambda>Out pixel. Out @ [body pixel]) [] Bitmap"

definition SetBitmapContrast :: "FColor list \<Rightarrow> real \<Rightarrow> FColor list" where
  "SetBitmapContrast Bitmap Contrast =
     (let tempContrast = GetMappedRangeValueClamped (0, 2) (- 255, 255) Contrast;
          factor = (259 * (tempContrast + 255)) / (255 * (259 - tempContrast))
      in for_each Bitmap (\<lambda>pixel. FColor3
           (to_uint8 (Clamp (factor * real_of_int (promote (Red pixel) - 128) + 128) 0 255))
           (to_uint8 (Clamp (factor * real_of_int (promote (Green pixel) - 128) + 128) 0 255))
           (to_uint8 (Clamp (factor * real_of_int (promote (Blue pixel) - 128) + 128) 0 255))))"

definition SetBitmapBrightness :: "FColor list \<Rightarrow> real \<Rightarrow> FColor list" where
  "SetBitmapBrightness Bitmap Brightness =
     (let tempBrightness = GetMappedRangeValueClamped (0, 2) (- 255, 255) Brightness
      in for_each Bitmap (\<lambda>pixel. FColor3
           (to_uint8 (Clamp (real_of_int (promote (Red pixel)) + tempBrightness) 0 255))
           (to_uint8 (Clamp (real_of_int (promote (Green pixel)) + tempBrightness) 0 255))
           (to_uint8 (Clamp (real_of_int (promote (Blue pixel)) + tempBrightness) 0 255))))"

section \<open>Blend of two bitmaps: multiplication and division\<close>

definition Multiply_pixel :: "(uint8 \<Rightarrow> float) \<Rightarrow> FColor \<Rightarrow> FColor \<Rightarrow> error + FColor" where
  "Multiply_pixel tbl a b =
     (let A = FLinearColor_of tbl a;
          B = FLinearColor_of tbl b;
          pixel = \<lparr>LinR = ClampF (fmul (LinR A) (LinR B)) (Finite 0) (Finite 1),
                   LinG = ClampF (fmul (LinG A) (LinG B)) (Finite 0) (Finite 1),
                   LinB = ClampF (fmul (LinB A) (LinB B)) (Finite 0) (Finite 1),
                   LinA = ClampF (fmul (LinA A) (LinA B)) (Finite 0) (Finite 1)\<rparr>
      in ToFColor pixel)"

definition Divide_pixel :: "(uint8 \<Rightarrow> float) \<Rightarrow> FColor \<Rightarrow> FColor \<Rightarrow> error + FColor" where
  "Divide_pixel tbl a b =
     (let A = FLinearColor_of tbl a;
          B = FLinearColor_of tbl b;
          pixel = \<lparr>LinR = ClampF (fdiv (LinR A) (LinR B)) (Finite 0) (Finite 1),
                   LinG = ClampF (fdiv (LinG A) (LinG B)) (Finite 0) (Finite 1),
                   LinB = ClampF (fdiv (LinB A) (LinB B)) (Finite 0) (Finite 1),
                   LinA = ClampF (fdiv (LinA A) (LinA B)) (Finite 0) (Finite 1)\<rparr>
      in ToFColor pixel)"

text \<open>
  The loop of both: \<^verbatim>\<open>for (int i = 0; i < minIndex; i++) { ...; OutBitmap.Add(pixel.ToFColor(false)); }\<close>.
\<close>

definition blend_loop :: "nat \<Rightarrow> (nat \<Rightarrow> error + FColor) \<Rightarrow> error + FColor list" where
  "blend_loop minIndex body =
     forM [0..<minIndex] [] (\<lambda>i Out. bindE (body i) (\<lambda>pixel. Inr (Out @ [pixel])))"

definition Multiply_Bitmap ::
  "(uint8 \<Rightarrow> float) \<Rightarrow> FColor list \<Rightarrow> FColor list \<Rightarrow> error + FColor list" where
  "Multiply_Bitmap tbl BitmapA BitmapB =
     (if length BitmapA > 0 \<and> length BitmapB > 0 then
        (let minIndex = (if length BitmapA < length BitmapB
                         then length BitmapA else length BitmapB)
         in blend_loop minIndex (\<lambda>i. Multiply_pixel tbl (BitmapA ! i) (BitmapB ! i)))
      else Inr [])"

definition Divide_Bitmap ::
  "(uint8 \<Rightarrow> float) \<Rightarrow> FColor list \<Rightarrow> FColor list \<Rightarrow> error + FColor list" where
  "Divide_Bitmap tbl BitmapA BitmapB =
     (if length BitmapA > 0 \<and> length BitmapB > 0 then
        (let minIndex = (if length BitmapA < length BitmapB
                         then length BitmapA else length BitmapB)
         in blend_loop minIndex (\<lambda>i. Divide_pixel tbl (BitmapA ! i) (BitmapB ! i)))
      else Inr [])"

section \<open>Filters\<close>

datatype EFilterColourChannel = ChRGB | ChRGBA | ChR | ChG | ChB | ChA | ChGreyscale

record FImageSize =
  SizeX :: int
  SizeY :: int

record FBitmapFilter =
  Size :: FImageSize
  Filter :: "real list"
  Factor :: real
  Bias :: real
  ColourChannel :: EFilterColourChannel

datatype EBitmapFilterType = Identity | Sharpen | BoxBlur | Gaussian1 | Gaussian2 | EdgeDetection

definition SetPixelColourChannel :: "FColor \<Rightarrow> EFilterColourChannel \<Rightarrow> FColor" where
  "SetPixelColourChannel Pixel Channel =
     (case Channel of
        ChRGB \<Rightarrow> \<lparr>Red = Red Pixel, Green = Green Pixel, Blue = Blue Pixel, Alpha = 255\<rparr>
      | ChRGBA \<Rightarrow> \<lparr>Red = Red Pixel, Green = Green Pixel, Blue = Blue Pixel, Alpha = Alpha Pixel\<rparr>
      | ChR \<Rightarrow> \<lparr>Red = Red Pixel, Green = 0, Blue = 0, Alpha = 255\<rparr>
      | ChG \<Rightarrow> \<lparr>Red = 0, Green = Green Pixel, Blue = 0, Alpha = 255\<rparr>
      | ChB \<Rightarrow> \<lparr>Red = 0, Green = 0, Blue = Blue Pixel, Alpha = 255\<rparr>
      | ChA \<Rightarrow> \<lparr>Red = Alpha Pixel, Green = Alpha Pixel, Blue = Alpha Pixel, Alpha = 0\<rparr>
      | ChGreyscale \<Rightarrow>
          (let greyscaledPixel = to_uint8
                 (real_of_int (promote (Red Pixel)) * (2989 / 10000)
                  + real_of_int (promote (Green Pixel)) * (5870 / 10000)
                  + real_of_int (promote (Blue Pixel)) * (1140 / 10000))
           in \<lparr>Red = greyscaledPixel, Green = greyscaledPixel, Blue = greyscaledPixel,
               Alpha = 255\<rparr>))"

text \<open>
  The constructors \<^verbatim>\<open>FImageSize(int inSizeX, int inSizeY)\<close>,
  \<^verbatim>\<open>FBitmapFilter(InSize, InFilter)\<close> and
  \<^verbatim>\<open>FBitmapFilter(InSize, InFilter, InFactor, InBias, InColourChannel)\<close> of
  \<^verbatim>\<open>ImageIOLibraryBPLibrary.h\<close>.
\<close>

definition FImageSize2 :: "int \<Rightarrow> int \<Rightarrow> FImageSize" where
  "FImageSize2 inSizeX inSizeY = \<lparr>SizeX = inSizeX, SizeY = inSizeY\<rparr>"

definition FBitmapFilter2 :: "FImageSize \<Rightarrow> real list \<Rightarrow> FBitmapFilter" where
  "FBitmapFilter2 InSize InFilter =
     \<lparr>Size = InSize, Filter = InFilter, Factor = 1, Bias = 0, ColourChannel = ChRGB\<rparr>"

definition FBitmapFilter5 ::
  "FImageSize \<Rightarrow> real list \<Rightarrow> real \<Rightarrow> real \<Rightarrow> EFilterColourChannel \<Rightarrow> FBitmapFilter" where
  "FBitmapFilter5 InSize InFilter InFactor InBias InColourChannel =
     \<lparr>Size = InSize, Filter = InFilter, Factor = InFactor, Bias = InBias,
      ColourChannel = InColourChannel\<rparr>"

text \<open>
  \<^verbatim>\<open>GetBitmapFilter\<close>, in the order of its \<^verbatim>\<open>switch\<close>. The six cases are all the
  values of \<^verbatim>\<open>EBitmapFilterType\<close>, so the \<^verbatim>\<open>return FBitmapFilter()\<close> after the
  \<^verbatim>\<open>switch\<close> is not reached.
\<close>

definition GetBitmapFilter ::
  "EBitmapFilterType \<Rightarrow> bool \<Rightarrow> EFilterColourChannel \<Rightarrow> FBitmapFilter" where
  "GetBitmapFilter BitmapFilter OverrideColourChannel ColourChannelOverride =
     (case BitmapFilter of
        Identity \<Rightarrow> FBitmapFilter5 (FImageSize2 3 3) [0,0,0,0,1,0,0,0,0] 1 0
          (if OverrideColourChannel then ColourChannelOverride else ChRGBA)
      | BoxBlur \<Rightarrow> FBitmapFilter5 (FImageSize2 3 3) [1,1,1,1,1,1,1,1,1] (11111111 / 100000000) 0
          (if OverrideColourChannel then ColourChannelOverride else ChRGBA)
      | Gaussian1 \<Rightarrow> FBitmapFilter5 (FImageSize2 3 3) [1,2,1,2,4,2,1,2,1] (625 / 10000) 0
          (if OverrideColourChannel then ColourChannelOverride else ChRGBA)
      | Gaussian2 \<Rightarrow> FBitmapFilter5 (FImageSize2 5 5)
          [1,4,6,4,1,4,16,24,16,4,6,24,36,24,6,4,16,24,16,4,1,4,6,4,1]
          (390625 / 100000000) 0
          (if OverrideColourChannel then ColourChannelOverride else ChRGBA)
      | Sharpen \<Rightarrow> FBitmapFilter5 (FImageSize2 3 3) [0,- 1,0,- 1,5,- 1,0,- 1,0] 1 0
          (if OverrideColourChannel then ColourChannelOverride else ChRGBA)
      | EdgeDetection \<Rightarrow> FBitmapFilter5 (FImageSize2 3 3) [- 1,- 1,- 1,- 1,8,- 1,- 1,- 1,- 1] 1 0
          (if OverrideColourChannel then ColourChannelOverride else ChGreyscale))"

text \<open>
  One statement of the innermost loop of \<^verbatim>\<open>ApplyBitmapFilter\<close>,
  \<^verbatim>\<open>tempRed += Bitmap[nPixelIndex].R * (filter[nFilterIndex] * Filter.Factor) + Filter.Bias\<close>:
  the sum is formed in \<^verbatim>\<open>float\<close> and stored back into the \<^verbatim>\<open>uint8\<close>.
\<close>

definition accumulate :: "uint8 \<Rightarrow> uint8 \<Rightarrow> real \<Rightarrow> real \<Rightarrow> real \<Rightarrow> uint8" where
  "accumulate temp channel weight InFactor InBias =
     to_uint8 (real_of_int (promote temp)
               + (real_of_int (promote channel) * (weight * InFactor) + InBias))"

text \<open>
  The body of the two inner loops, for the kernel cell \<open>(filterX, filterY)\<close> of the
  pixel \<open>(X, Y)\<close>. \<^verbatim>\<open>FMath::FloorToInt(filterWidth / 2)\<close> is the integer quotient. The
  read of the bitmap is put before the read of the weights.
\<close>

definition kernel_cell ::
  "FColor list \<Rightarrow> FImageSize \<Rightarrow> FBitmapFilter \<Rightarrow> int \<Rightarrow> int \<Rightarrow> int \<Rightarrow> int
   \<Rightarrow> uint8 \<times> uint8 \<times> uint8 \<Rightarrow> error + uint8 \<times> uint8 \<times> uint8" where
  "kernel_cell Bitmap Sz Flt X Y filterY filterX temp =
     (let filterWidth = SizeX (Size Flt);
          filterHeight = SizeY (Size Flt);
          nPixelX = X + filterX - cdiv filterWidth 2;
          nPixelY = Y + filterY - cdiv filterHeight 2;
          nPixelIndex = Clamp (nPixelY * SizeX Sz + nPixelX) 0 (int (length Bitmap) - 1);
          nFilterIndex = Clamp (filterY * filterWidth + filterX) 0
                           (int (length (Filter Flt)) - 1)
      in bindE (array_at Bitmap nPixelIndex BitmapIndexOutOfRange) (\<lambda>p.
         bindE (array_at (Filter Flt) nFilterIndex FilterIndexOutOfRange) (\<lambda>w.
           case temp of (tempRed, tempGreen, tempBlue) \<Rightarrow>
             Inr (accumulate tempRed (Red p) w (Factor Flt) (Bias Flt),
                  accumulate tempGreen (Green p) w (Factor Flt) (Bias Flt),
                  accumulate tempBlue (Blue p) w (Factor Flt) (Bias Flt)))))"

text \<open>
  The body of the loop over \<open>X\<close>, up to the call of \<^verbatim>\<open>EmplaceAt\<close>: the index and the
  pixel computed for the coordinate \<open>(X, Y)\<close>.
\<close>

definition filter_pixel ::
  "FColor list \<Rightarrow> FImageSize \<Rightarrow> FBitmapFilter \<Rightarrow> int \<Rightarrow> int \<Rightarrow> error + int \<times> FColor" where
  "filter_pixel Bitmap Sz Flt X Y =
     (let filterWidth = SizeX (Size Flt);
          filterHeight = SizeY (Size Flt);
          pixelIndex = Clamp (Y * SizeX Sz + X) 0 (int (length Bitmap) - 1)
      in bindE (if ColourChannel Flt = ChRGBA
                then bindE (array_at Bitmap pixelIndex BitmapIndexOutOfRange) (\<lambda>p. Inr (Alpha p))
                else Inr 255) (\<lambda>tempAlpha.
         bindE (forM (for_range filterHeight) (0, 0, 0) (\<lambda>filterY temp.
                  forM (for_range filterWidth) temp (\<lambda>filterX temp'.
                    kernel_cell Bitmap Sz Flt X Y filterY filterX temp'))) (\<lambda>temp.
           case temp of (tempRed, tempGreen, tempBlue) \<Rightarrow>
             Inr (pixelIndex,
                  SetPixelColourChannel (FColor4 tempRed tempGreen tempBlue tempAlpha)
                    (ColourChannel Flt)))))"

definition ApplyBitmapFilter ::
  "FColor list \<Rightarrow> FImageSize \<Rightarrow> FBitmapFilter \<Rightarrow> error + FColor list" where
  "ApplyBitmapFilter Bitmap Sz Flt =
     forM (for_range (SizeY Sz)) [] (\<lambda>Y Out.
       forM (for_range (SizeX Sz)) Out (\<lambda>X Out'.
         bindE (filter_pixel Bitmap Sz Flt X Y) (\<lambda>r.
           case r of (pixelIndex, pixel) \<Rightarrow> EmplaceAt Out' pixelIndex pixel)))"

section \<open>Properties of the addition\<close>

lemma foldl_snoc_map: "foldl (\<lambda>Out i. Out @ [f i]) acc xs = acc @ map f xs"
  by (induction xs arbitrary: acc) simp_all

lemma for_Add_map: "for_Add n body = map body [0..<n]"
  by (simp add: for_Add_def foldl_snoc_map)

lemma length_for_Add: "length (for_Add n body) = n"
  by (simp add: for_Add_map)

lemma nth_for_Add: "i < n \<Longrightarrow> for_Add n body ! i = body i"
  by (simp add: for_Add_map)

lemma Add_Bitmap_map:
  "Add_Bitmap A B = map (\<lambda>i. Add_pixel (A ! i) (B ! i)) [0..<min (length A) (length B)]"
  by (auto simp: Add_Bitmap_def for_Add_map Let_def min_def)

lemma length_Add_Bitmap: "length (Add_Bitmap A B) = min (length A) (length B)"
  by (simp add: Add_Bitmap_map)

lemma nth_Add_Bitmap:
  "i < length A \<Longrightarrow> i < length B \<Longrightarrow> Add_Bitmap A B ! i = Add_pixel (A ! i) (B ! i)"
  by (simp add: Add_Bitmap_map)

lemma alpha_test_iff: "alpha_test a b \<longleftrightarrow> Alpha a \<noteq> Alpha b"
  by (simp add: alpha_test_def)

lemma add_channel_commute: "add_channel a c = add_channel c a"
  by (simp add: add_channel_def add.commute)

lemma FColor_add_commute: "FColor_add p c = FColor_add c p"
  by (simp add: FColor_add_def add_channel_commute [of "Red p"]
      add_channel_commute [of "Green p"] add_channel_commute [of "Blue p"]
      add_channel_commute [of "Alpha p"])

lemma Add_pixel_commute: "Add_pixel a b = Add_pixel b a"
  by (auto simp: Add_pixel_def alpha_test_iff FColor_add_commute)

text \<open>
  C1. The claim: where both input pixels have alpha 0, \<^verbatim>\<open>Add_Bitmap\<close> gives the pixel
  (0,0,0,0) and not the clamped sum. The code does not: for the one-pixel bitmaps
  (10,20,30,0) and (5,5,5,0) both alphas are 0, the two alphas are equal, the chained
  comparison is therefore false, and the generic branch gives the clamped sum
  (15,25,35,0).
\<close>

theorem Add_Bitmap_both_transparent:
  "Add_Bitmap [FColor4 10 20 30 0] [FColor4 5 5 5 0] = [FColor4 15 25 35 0]"
  by (simp add: Add_Bitmap_def for_Add_def Add_pixel_def alpha_test_def FColor_add_def
      add_channel_def FColor4_def)

text \<open>
  C8. For two bitmaps of the same length, \<^verbatim>\<open>Add_Bitmap(A, B)\<close> equals
  \<^verbatim>\<open>Add_Bitmap(B, A)\<close>: the test on the two alphas is symmetric, and so is the clamped
  sum of each channel.
\<close>

theorem Add_Bitmap_commute:
  "length A = length B \<Longrightarrow> Add_Bitmap A B = Add_Bitmap B A"
  by (simp add: Add_Bitmap_map Add_pixel_commute min.commute)

theorem Add_Bitmap_commute_witness:
  "length [FColor4 200 0 7 255, FColor4 1 2 3 0] = length [FColor4 100 9 7 255, FColor4 4 5 6 9]
   \<and> Add_Bitmap [FColor4 200 0 7 255, FColor4 1 2 3 0] [FColor4 100 9 7 255, FColor4 4 5 6 9]
     = Add_Bitmap [FColor4 100 9 7 255, FColor4 4 5 6 9] [FColor4 200 0 7 255, FColor4 1 2 3 0]"
  using Add_Bitmap_commute [of "[FColor4 200 0 7 255, FColor4 1 2 3 0]"
      "[FColor4 100 9 7 255, FColor4 4 5 6 9]"]
  by simp

text \<open>
  C7. The claim: \<^verbatim>\<open>Multiply_Bitmap(A, allOnesBuffer)\<close> equals \<open>A\<close> and
  \<^verbatim>\<open>Add_Bitmap(A, allZeroBuffer)\<close> equals \<open>A\<close>. The addition does not: the opaque pixel
  (10,20,30,255) and the zero pixel have different alphas, the chained comparison of
  \<^verbatim>\<open>Add_Bitmap\<close> is true, and the output is the zeroed pixel instead of the sum. Of the
  multiplication, \<open>Multiply_Bitmap_white_Alpha\<close> below gives the length and the alpha
  channel; the colour channels go through the engine's table.
\<close>

theorem Add_Bitmap_zero_buffer:
  "Add_Bitmap [FColor4 10 20 30 255] [FColor4 0 0 0 0] = [FColor4 0 0 0 0]"
  by (simp add: Add_Bitmap_def for_Add_def Add_pixel_def alpha_test_def FColor4_def)

section \<open>Properties of contrast and brightness\<close>

lemma for_each_map: "for_each xs body = map body xs"
  by (simp add: for_each_def foldl_snoc_map)

lemma GetMappedRangeValueClamped_neutral:
  "GetMappedRangeValueClamped (0, 2) (- 255, 255) 1 = 0"
  by (simp add: GetMappedRangeValueClamped_def GetRangePct_def IsNearlyZero_def Lerp_def
      Clamp_def Let_def)

lemma promote_bounds: "0 \<le> promote c" "promote c \<le> 255"
proof -
  show "0 \<le> promote c" by (simp add: promote_def)
  have "uint c < 2 ^ LENGTH(8)" by (rule uint_lt2p)
  then show "promote c \<le> 255" by (simp add: promote_def)
qed

lemma trunc_of_int: "trunc_toward_zero (real_of_int n) = n"
  by (simp add: trunc_toward_zero_def)

lemma to_uint8_promote: "to_uint8 (real_of_int (promote c)) = c"
  by (simp only: to_uint8_def trunc_of_int promote_def word_of_int_uint)

lemma Clamp_promote: "Clamp (real_of_int (promote c)) 0 255 = real_of_int (promote c)"
  using promote_bounds [of c] by (auto simp: Clamp_def)

lemma brightness_channel_neutral:
  "to_uint8 (Clamp (real_of_int (promote c) + 0) 0 255) = c"
  by (simp add: Clamp_promote to_uint8_promote)

lemma contrast_channel_neutral:
  "to_uint8 (Clamp (1 * real_of_int (promote c - 128) + 128) 0 255) = c"
proof -
  have "1 * real_of_int (promote c - 128) + 128 = real_of_int (promote c)" by simp
  then show ?thesis by (simp only: Clamp_promote to_uint8_promote)
qed

lemma opaque_eq: "FColor3 (Red p) (Green p) (Blue p) = p\<lparr>Alpha := 255\<rparr>"
  by (simp add: FColor3_def FColor4_def)

lemma SetBitmapBrightness_neutral:
  "SetBitmapBrightness Bitmap 1 = map (\<lambda>pixel. pixel\<lparr>Alpha := 255\<rparr>) Bitmap"
  by (simp only: SetBitmapBrightness_def GetMappedRangeValueClamped_neutral Let_def
      for_each_map brightness_channel_neutral opaque_eq)

lemma contrast_factor_neutral: "(259 * ((0::real) + 255)) / (255 * (259 - 0)) = 1"
  by simp

lemma SetBitmapContrast_neutral:
  "SetBitmapContrast Bitmap 1 = map (\<lambda>pixel. pixel\<lparr>Alpha := 255\<rparr>) Bitmap"
  by (simp only: SetBitmapContrast_def GetMappedRangeValueClamped_neutral Let_def
      contrast_factor_neutral for_each_map contrast_channel_neutral opaque_eq)

lemma length_SetBitmapBrightness: "length (SetBitmapBrightness Bitmap Brightness) = length Bitmap"
  by (simp add: SetBitmapBrightness_def for_each_map Let_def)

lemma nth_SetBitmapBrightness_Alpha:
  "i < length Bitmap \<Longrightarrow> Alpha (SetBitmapBrightness Bitmap Brightness ! i) = 255"
  by (simp add: SetBitmapBrightness_def for_each_map Let_def FColor3_def FColor4_def)

text \<open>
  C2. At the neutral parameter 1.0, \<^verbatim>\<open>SetBitmapBrightness\<close> and
  \<^verbatim>\<open>SetBitmapContrast\<close> return the input with R, G and B of every pixel exactly
  unchanged (the offset is 0, the factor is 1) and the alpha of every pixel set to 255:
  both build the output pixel with the three-argument \<^verbatim>\<open>FColor\<close> constructor.
\<close>

theorem SetBitmap_neutral_parameter:
  "SetBitmapBrightness Bitmap 1 = map (\<lambda>pixel. pixel\<lparr>Alpha := 255\<rparr>) Bitmap
   \<and> SetBitmapContrast Bitmap 1 = map (\<lambda>pixel. pixel\<lparr>Alpha := 255\<rparr>) Bitmap"
  by (simp only: SetBitmapBrightness_neutral SetBitmapContrast_neutral)

text \<open>
  The identity including alpha fails at the transparent pixel (1,2,3,0).
\<close>

theorem SetBitmap_neutral_counterexample:
  "\<not> (SetBitmapBrightness [FColor4 1 2 3 0] 1 = [FColor4 1 2 3 0]
      \<and> SetBitmapContrast [FColor4 1 2 3 0] 1 = [FColor4 1 2 3 0])"
  by (simp add: SetBitmapBrightness_neutral FColor4_def)

text \<open>
  C3. For every brightness, \<^verbatim>\<open>SetBitmapBrightness\<close> returns a bitmap of the length of
  the input in which every pixel has alpha 255, whatever the alpha of the input pixel:
  R, G and B are offset and clamped, the alpha is not read.
\<close>

theorem SetBitmapBrightness_alpha:
  "length (SetBitmapBrightness Bitmap Brightness) = length Bitmap
   \<and> (\<forall>i<length Bitmap. Alpha (SetBitmapBrightness Bitmap Brightness ! i) = 255)"
  by (simp add: length_SetBitmapBrightness nth_SetBitmapBrightness_Alpha)

theorem SetBitmapBrightness_alpha_witness:
  "0 < length [FColor4 10 20 30 0]
   \<and> Alpha (SetBitmapBrightness [FColor4 10 20 30 0] (3 / 2) ! 0) = 255"
  using SetBitmapBrightness_alpha [of "[FColor4 10 20 30 0]" "3 / 2"]
  by simp

text \<open>
  The alpha 0 of the input pixel (10,20,30,0) is not kept.
\<close>

theorem SetBitmapBrightness_alpha_counterexample:
  "Alpha (SetBitmapBrightness [FColor4 10 20 30 0] (3 / 2) ! 0) \<noteq> Alpha ([FColor4 10 20 30 0] ! 0)"
  by (simp add: nth_SetBitmapBrightness_Alpha FColor4_def)

section \<open>Properties of the multiplication and the division\<close>

lemma ClampF_unit:
  "\<exists>v. ClampF x (Finite 0) (Finite 1) = Finite v \<and> 0 \<le> v \<and> v \<le> 1"
  by (cases x) (auto simp: ClampF_def)

lemma ClampF_id: "0 \<le> v \<Longrightarrow> v \<le> 1 \<Longrightarrow> ClampF (Finite v) (Finite 0) (Finite 1) = Finite v"
  by (auto simp: ClampF_def)

lemma quantize_Finite:
  "quantize (Finite v) = Inr (word_of_int \<lfloor>v * (255999 / 1000)\<rfloor>)"
  by (simp add: quantize_def FloorToInt_def bindE_def)

lemma quantize_ClampF_total: "\<exists>c. quantize (ClampF x (Finite 0) (Finite 1)) = Inr c"
proof -
  obtain v where "ClampF x (Finite 0) (Finite 1) = Finite v"
    using ClampF_unit by blast
  then show ?thesis by (simp add: quantize_Finite)
qed

lemma ToFColor_channels:
  "\<exists>r g b a. ToFColor c = Inr (FColor4 r g b a)
     \<and> quantize (ClampF (LinR c) (Finite 0) (Finite 1)) = Inr r
     \<and> quantize (ClampF (LinG c) (Finite 0) (Finite 1)) = Inr g
     \<and> quantize (ClampF (LinB c) (Finite 0) (Finite 1)) = Inr b
     \<and> quantize (ClampF (LinA c) (Finite 0) (Finite 1)) = Inr a"
proof -
  obtain r where r: "quantize (ClampF (LinR c) (Finite 0) (Finite 1)) = Inr r"
    using quantize_ClampF_total by blast
  obtain g where g: "quantize (ClampF (LinG c) (Finite 0) (Finite 1)) = Inr g"
    using quantize_ClampF_total by blast
  obtain b where b: "quantize (ClampF (LinB c) (Finite 0) (Finite 1)) = Inr b"
    using quantize_ClampF_total by blast
  obtain a where a: "quantize (ClampF (LinA c) (Finite 0) (Finite 1)) = Inr a"
    using quantize_ClampF_total by blast
  have "ToFColor c = Inr (FColor4 r g b a)"
    by (simp add: ToFColor_def Let_def r g b a bindE_def)
  with r g b a show ?thesis by blast
qed

lemma ToFColor_total: "\<exists>p. ToFColor c = Inr p"
  using ToFColor_channels [of c] by blast

lemma ToFColor_Alpha:
  "ToFColor c = Inr p \<Longrightarrow> quantize (ClampF (LinA c) (Finite 0) (Finite 1)) = Inr (Alpha p)"
  using ToFColor_channels [of c] by (auto simp: FColor4_def)

lemma Multiply_pixel_total: "\<exists>p. Multiply_pixel tbl a b = Inr p"
  by (simp add: Multiply_pixel_def Let_def ToFColor_total)

lemma Divide_pixel_total: "\<exists>p. Divide_pixel tbl a b = Inr p"
  by (simp add: Divide_pixel_def Let_def ToFColor_total)

lemma forM_snoc:
  assumes "\<And>i. i \<in> set idxs \<Longrightarrow> \<exists>p. body i = Inr p"
  shows "\<exists>out. forM idxs acc (\<lambda>i Out. bindE (body i) (\<lambda>pixel. Inr (Out @ [pixel]))) = Inr (acc @ out)
           \<and> length out = length idxs
           \<and> (\<forall>k<length idxs. body (idxs ! k) = Inr (out ! k))"
  using assms
proof (induction idxs arbitrary: acc)
  case Nil
  then show ?case by simp
next
  case (Cons i rest)
  obtain p where p: "body i = Inr p" using Cons.prems by auto
  obtain out where out:
    "forM rest (acc @ [p]) (\<lambda>i Out. bindE (body i) (\<lambda>pixel. Inr (Out @ [pixel]))) = Inr ((acc @ [p]) @ out)"
    "length out = length rest"
    "\<forall>k<length rest. body (rest ! k) = Inr (out ! k)"
    using Cons.IH [of "acc @ [p]"] Cons.prems by auto
  have 1: "forM (i # rest) acc (\<lambda>i Out. bindE (body i) (\<lambda>pixel. Inr (Out @ [pixel]))) = Inr (acc @ (p # out))"
    using out(1) by (simp add: p bindE_def)
  have 2: "\<forall>k<length (i # rest). body ((i # rest) ! k) = Inr ((p # out) ! k)"
  proof (intro allI impI)
    fix k assume "k < length (i # rest)"
    then show "body ((i # rest) ! k) = Inr ((p # out) ! k)"
      using out(3) p by (cases k) auto
  qed
  show ?case
    using 1 2 out(2) by (intro exI [of _ "p # out"]) simp
qed

lemma blend_loop_total:
  assumes "\<And>i. i < n \<Longrightarrow> \<exists>p. body i = Inr p"
  shows "\<exists>out. blend_loop n body = Inr out \<and> length out = n
           \<and> (\<forall>k<n. body k = Inr (out ! k))"
proof -
  have "\<And>i. i \<in> set [0..<n] \<Longrightarrow> \<exists>p. body i = Inr p" using assms by simp
  from forM_snoc [of "[0..<n]" body "[]", OF this]
  show ?thesis by (auto simp: blend_loop_def)
qed

lemma Multiply_Bitmap_pixels:
  "\<exists>out. Multiply_Bitmap tbl A B = Inr out \<and> length out = min (length A) (length B)
     \<and> (\<forall>k<min (length A) (length B). Multiply_pixel tbl (A ! k) (B ! k) = Inr (out ! k))"
proof (cases "length A > 0 \<and> length B > 0")
  case True
  have "\<exists>out. blend_loop (min (length A) (length B)) (\<lambda>i. Multiply_pixel tbl (A ! i) (B ! i)) = Inr out
      \<and> length out = min (length A) (length B)
      \<and> (\<forall>k<min (length A) (length B). Multiply_pixel tbl (A ! k) (B ! k) = Inr (out ! k))"
    by (rule blend_loop_total) (rule Multiply_pixel_total)
  moreover have "Multiply_Bitmap tbl A B
      = blend_loop (min (length A) (length B)) (\<lambda>i. Multiply_pixel tbl (A ! i) (B ! i))"
    using True by (simp add: Multiply_Bitmap_def Let_def min_def)
  ultimately show ?thesis by simp
next
  case False
  then show ?thesis by (auto simp: Multiply_Bitmap_def)
qed

lemma Divide_Bitmap_pixels:
  "\<exists>out. Divide_Bitmap tbl A B = Inr out \<and> length out = min (length A) (length B)
     \<and> (\<forall>k<min (length A) (length B). Divide_pixel tbl (A ! k) (B ! k) = Inr (out ! k))"
proof (cases "length A > 0 \<and> length B > 0")
  case True
  have "\<exists>out. blend_loop (min (length A) (length B)) (\<lambda>i. Divide_pixel tbl (A ! i) (B ! i)) = Inr out
      \<and> length out = min (length A) (length B)
      \<and> (\<forall>k<min (length A) (length B). Divide_pixel tbl (A ! k) (B ! k) = Inr (out ! k))"
    by (rule blend_loop_total) (rule Divide_pixel_total)
  moreover have "Divide_Bitmap tbl A B
      = blend_loop (min (length A) (length B)) (\<lambda>i. Divide_pixel tbl (A ! i) (B ! i))"
    using True by (simp add: Divide_Bitmap_def Let_def min_def)
  ultimately show ?thesis by simp
next
  case False
  then show ?thesis by (auto simp: Divide_Bitmap_def)
qed

lemma floor_alpha_scale:
  assumes "0 \<le> n" and "n \<le> 255"
  shows "\<lfloor>real_of_int n / 255 * (255999 / 1000)\<rfloor> = n"
proof (rule floor_unique)
  show "of_int n \<le> real_of_int n / 255 * (255999 / 1000)" using assms by simp
  have "real_of_int n * 255999 < (real_of_int n + 1) * 255000" using assms by simp
  then show "real_of_int n / 255 * (255999 / 1000) < of_int n + 1" by simp
qed

lemma quantize_alpha:
  "quantize (Finite (real_of_int (promote c) / 255)) = Inr c"
proof -
  have "\<lfloor>real_of_int (promote c) / 255 * (255999 / 1000)\<rfloor> = promote c"
    by (rule floor_alpha_scale [OF promote_bounds])
  then have "quantize (Finite (real_of_int (promote c) / 255)) = Inr (word_of_int (promote c))"
    by (simp only: quantize_Finite)
  then show ?thesis by (simp only: promote_def word_of_int_uint)
qed

lemma LinA_of: "LinA (FLinearColor_of tbl c) = Finite (real_of_int (promote (Alpha c)) / 255)"
  by (simp add: FLinearColor_of_def OneOver255_def)

lemma promote_255: "promote 255 = 255"
  by (simp add: promote_def)

lemma alpha_unit:
  "0 \<le> real_of_int (promote c) / 255" "real_of_int (promote c) / 255 \<le> 1"
  using promote_bounds [of c] by simp_all

lemma Multiply_pixel_white_Alpha:
  assumes "Multiply_pixel tbl a (FColor4 r g b 255) = Inr p"
  shows "Alpha p = Alpha a"
proof -
  let ?v = "real_of_int (promote (Alpha a)) / 255"
  have w: "LinA (FLinearColor_of tbl (FColor4 r g b 255)) = Finite 1"
    by (simp add: LinA_of FColor4_def promote_255)
  have "fmul (LinA (FLinearColor_of tbl a)) (LinA (FLinearColor_of tbl (FColor4 r g b 255))) = Finite ?v"
    by (simp only: w LinA_of [of tbl a]) simp
  then have "quantize (ClampF (ClampF (Finite ?v) (Finite 0) (Finite 1)) (Finite 0) (Finite 1)) = Inr (Alpha p)"
    using ToFColor_Alpha [OF assms [unfolded Multiply_pixel_def Let_def]] by simp
  then have "quantize (Finite ?v) = Inr (Alpha p)"
    by (simp only: ClampF_id [OF alpha_unit])
  then show ?thesis by (simp only: quantize_alpha) simp
qed

lemma ClampF_div_zero:
  "0 \<le> v \<Longrightarrow> ClampF (fdiv (Finite v) (Finite 0)) (Finite 0) (Finite 1) = Finite 1"
  by (auto simp: ClampF_def signed_inf_def sgn_if)

lemma quantize_one: "quantize (Finite 1) = Inr 255"
  by (simp add: quantize_Finite)

lemma promote_0: "promote 0 = 0"
  by (simp add: promote_def)

lemma Divide_pixel_zero_Alpha:
  assumes "Divide_pixel tbl a b = Inr p" and "Alpha b = 0"
  shows "Alpha p = 255"
proof -
  let ?v = "real_of_int (promote (Alpha a)) / 255"
  have "fdiv (LinA (FLinearColor_of tbl a)) (LinA (FLinearColor_of tbl b))
        = fdiv (Finite ?v) (Finite 0)"
    by (simp only: LinA_of assms(2) promote_0) simp
  then have "quantize (ClampF (ClampF (fdiv (Finite ?v) (Finite 0)) (Finite 0) (Finite 1))
       (Finite 0) (Finite 1)) = Inr (Alpha p)"
    using ToFColor_Alpha [OF assms(1) [unfolded Divide_pixel_def Let_def]] by simp
  then have "quantize (ClampF (Finite 1) (Finite 0) (Finite 1)) = Inr (Alpha p)"
    by (simp only: ClampF_div_zero [OF alpha_unit(1)])
  then show ?thesis by (simp add: ClampF_def quantize_one)
qed

lemma Multiply_Bitmap_white_Alpha:
  "\<exists>out. Multiply_Bitmap tbl A (replicate (length A) (FColor4 255 255 255 255)) = Inr out
     \<and> length out = length A \<and> (\<forall>i<length A. Alpha (out ! i) = Alpha (A ! i))"
proof -
  let ?W = "replicate (length A) (FColor4 255 255 255 255)"
  obtain out where out: "Multiply_Bitmap tbl A ?W = Inr out"
      "length out = min (length A) (length ?W)"
      "\<forall>k<min (length A) (length ?W). Multiply_pixel tbl (A ! k) (?W ! k) = Inr (out ! k)"
    using Multiply_Bitmap_pixels [of tbl A ?W] by blast
  have "Alpha (out ! i) = Alpha (A ! i)" if "i < length A" for i
  proof -
    have "Multiply_pixel tbl (A ! i) (FColor4 255 255 255 255) = Inr (out ! i)"
      using out(3) that by simp
    then show ?thesis by (rule Multiply_pixel_white_Alpha)
  qed
  then show ?thesis using out(1,2) by simp
qed

text \<open>
  C5. \<^verbatim>\<open>Add_Bitmap\<close>, \<^verbatim>\<open>Multiply_Bitmap\<close> and \<^verbatim>\<open>Divide_Bitmap\<close> return a bitmap of
  length \<open>min lenA lenB\<close> when both inputs are non-empty, and the empty bitmap when one
  of them is empty. The multiplication and the division return: no conversion in them
  fails.
\<close>

theorem blend_length:
  "(A \<noteq> [] \<and> B \<noteq> [] \<longrightarrow>
      length (Add_Bitmap A B) = min (length A) (length B)
      \<and> (\<exists>out. Multiply_Bitmap tbl A B = Inr out \<and> length out = min (length A) (length B))
      \<and> (\<exists>out. Divide_Bitmap tbl A B = Inr out \<and> length out = min (length A) (length B)))
   \<and> (A = [] \<or> B = [] \<longrightarrow>
      Add_Bitmap A B = [] \<and> Multiply_Bitmap tbl A B = Inr [] \<and> Divide_Bitmap tbl A B = Inr [])"
proof (intro conjI impI)
  show "length (Add_Bitmap A B) = min (length A) (length B)"
    by (rule length_Add_Bitmap)
  show "\<exists>out. Multiply_Bitmap tbl A B = Inr out \<and> length out = min (length A) (length B)"
    using Multiply_Bitmap_pixels [of tbl A B] by blast
  show "\<exists>out. Divide_Bitmap tbl A B = Inr out \<and> length out = min (length A) (length B)"
    using Divide_Bitmap_pixels [of tbl A B] by blast
next
  assume "A = [] \<or> B = []"
  then show "Add_Bitmap A B = []" by (auto simp: Add_Bitmap_def)
next
  assume "A = [] \<or> B = []"
  then show "Multiply_Bitmap tbl A B = Inr []" by (auto simp: Multiply_Bitmap_def)
next
  assume "A = [] \<or> B = []"
  then show "Divide_Bitmap tbl A B = Inr []" by (auto simp: Divide_Bitmap_def)
qed

theorem blend_length_witness:
  "([FColor4 9 8 7 6, FColor4 1 2 3 4, FColor4 0 0 0 0] \<noteq> []
      \<and> [FColor4 5 5 5 5, FColor4 0 0 0 0] \<noteq> []
      \<and> length (Add_Bitmap [FColor4 9 8 7 6, FColor4 1 2 3 4, FColor4 0 0 0 0]
                  [FColor4 5 5 5 5, FColor4 0 0 0 0]) = 2
      \<and> (\<exists>out. Multiply_Bitmap (\<lambda>c. Finite (real_of_int (promote c) / 255))
                  [FColor4 9 8 7 6, FColor4 1 2 3 4, FColor4 0 0 0 0]
                  [FColor4 5 5 5 5, FColor4 0 0 0 0] = Inr out \<and> length out = 2)
      \<and> (\<exists>out. Divide_Bitmap (\<lambda>c. Finite (real_of_int (promote c) / 255))
                  [FColor4 9 8 7 6, FColor4 1 2 3 4, FColor4 0 0 0 0]
                  [FColor4 5 5 5 5, FColor4 0 0 0 0] = Inr out \<and> length out = 2))
   \<and> (([] :: FColor list) = []
      \<and> Add_Bitmap [] [FColor4 5 5 5 5] = []
      \<and> Multiply_Bitmap (\<lambda>c. Finite (real_of_int (promote c) / 255)) [] [FColor4 5 5 5 5] = Inr []
      \<and> Divide_Bitmap (\<lambda>c. Finite (real_of_int (promote c) / 255)) [] [FColor4 5 5 5 5] = Inr [])"
  using blend_length [of "[FColor4 9 8 7 6, FColor4 1 2 3 4, FColor4 0 0 0 0]"
      "[FColor4 5 5 5 5, FColor4 0 0 0 0]" "\<lambda>c. Finite (real_of_int (promote c) / 255)"]
    blend_length [of "[]" "[FColor4 5 5 5 5]" "\<lambda>c. Finite (real_of_int (promote c) / 255)"]
  by (simp add: numeral_2_eq_2)

text \<open>
  C4. Where some channel of some pixel of \<open>B\<close> within the common length is zero,
  \<^verbatim>\<open>Divide_Bitmap(A, B)\<close> returns a bitmap of 8-bit channels, of the common length. The
  quotient by a zero channel is an infinity or a NaN. \<^verbatim>\<open>FMath::Clamp\<close> tests
  \<open>X < Min\<close> and then \<open>X < Max\<close>: for \<open>+\<infinity>\<close> and for a NaN both are false and the
  result is the upper bound, for \<open>-\<infinity>\<close> it is the lower bound. So every value that
  \<^verbatim>\<open>ToFColor\<close> converts to an integer is finite and in [0,1], and no conversion
  fails. Where the alpha of the divisor is zero, the output alpha is 255.
\<close>

theorem Divide_Bitmap_zero_channel:
  assumes "i < length A" and "i < length B"
    and "Red (B ! i) = 0 \<or> Green (B ! i) = 0 \<or> Blue (B ! i) = 0 \<or> Alpha (B ! i) = 0"
  shows "\<exists>out. Divide_Bitmap tbl A B = Inr out \<and> length out = min (length A) (length B)
           \<and> (Alpha (B ! i) = 0 \<longrightarrow> Alpha (out ! i) = 255)"
proof -
  obtain out where out: "Divide_Bitmap tbl A B = Inr out"
      "length out = min (length A) (length B)"
      "\<forall>k<min (length A) (length B). Divide_pixel tbl (A ! k) (B ! k) = Inr (out ! k)"
    using Divide_Bitmap_pixels [of tbl A B] by blast
  have "Divide_pixel tbl (A ! i) (B ! i) = Inr (out ! i)"
    using out(3) assms(1,2) by simp
  then have "Alpha (B ! i) = 0 \<longrightarrow> Alpha (out ! i) = 255"
    by (blast intro: Divide_pixel_zero_Alpha)
  then show ?thesis using out(1,2) by blast
qed

theorem Divide_Bitmap_zero_channel_witness:
  "(0 < length [FColor4 255 0 100 255] \<and> 0 < length [FColor4 0 0 50 0]
    \<and> (Red ([FColor4 0 0 50 0] ! 0) = 0 \<or> Green ([FColor4 0 0 50 0] ! 0) = 0
       \<or> Blue ([FColor4 0 0 50 0] ! 0) = 0 \<or> Alpha ([FColor4 0 0 50 0] ! 0) = 0))
   \<and> (\<exists>out. Divide_Bitmap (\<lambda>c. Finite (real_of_int (promote c) / 255))
               [FColor4 255 0 100 255] [FColor4 0 0 50 0] = Inr out
         \<and> length out = 1 \<and> Alpha (out ! 0) = 255)"
proof -
  have h1: "0 < length [FColor4 255 0 100 255]" by simp
  have h2: "0 < length [FColor4 0 0 50 0]" by simp
  have h3: "Red ([FColor4 0 0 50 0] ! 0) = 0 \<or> Green ([FColor4 0 0 50 0] ! 0) = 0
       \<or> Blue ([FColor4 0 0 50 0] ! 0) = 0 \<or> Alpha ([FColor4 0 0 50 0] ! 0) = 0"
    by (simp add: FColor4_def)
  have h4: "Alpha ([FColor4 0 0 50 0] ! 0) = 0" by (simp add: FColor4_def)
  show ?thesis
    using h1 h2 h3 h4
      Divide_Bitmap_zero_channel [OF h1 h2 h3, of "\<lambda>c. Finite (real_of_int (promote c) / 255)"]
    by simp
qed

section \<open>Properties of the filter\<close>

lemma Clamp_index:
  fixes v n :: int
  assumes "0 < n"
  shows "0 \<le> Clamp v 0 (n - 1)" and "Clamp v 0 (n - 1) < n"
  using assms by (auto simp: Clamp_def)

lemma array_at_Clamp:
  assumes "xs \<noteq> []"
  shows "\<exists>x. array_at xs (Clamp v 0 (int (length xs) - 1)) e = Inr x"
proof -
  have "0 < int (length xs)" using assms by simp
  from Clamp_index [OF this, of v] show ?thesis by (simp add: array_at_def)
qed

lemma kernel_cell_total:
  assumes "Bitmap \<noteq> []" and "Filter Flt \<noteq> []"
  shows "\<exists>t. kernel_cell Bitmap Sz Flt X Y filterY filterX temp = Inr t"
proof -
  obtain p where p: "array_at Bitmap (Clamp ((Y + filterY - cdiv (SizeY (Size Flt)) 2) * SizeX Sz
      + (X + filterX - cdiv (SizeX (Size Flt)) 2)) 0 (int (length Bitmap) - 1)) BitmapIndexOutOfRange = Inr p"
    using array_at_Clamp [OF assms(1)] by blast
  obtain w where w: "array_at (Filter Flt) (Clamp (filterY * SizeX (Size Flt) + filterX) 0
      (int (length (Filter Flt)) - 1)) FilterIndexOutOfRange = Inr w"
    using array_at_Clamp [OF assms(2)] by blast
  show ?thesis
    by (cases temp) (simp add: kernel_cell_def Let_def p w bindE_def)
qed

lemma forM_total:
  assumes "\<And>i s. \<exists>s'. body i s = Inr s'"
  shows "\<exists>s'. forM idxs s body = Inr s'"
proof (induction idxs arbitrary: s)
  case Nil
  show ?case by simp
next
  case (Cons i rest)
  obtain s1 where "body i s = Inr s1" using assms by blast
  then show ?case using Cons.IH [of s1] by simp
qed

lemma filter_pixel_total:
  assumes "Bitmap \<noteq> []" and "Filter Flt \<noteq> []"
  shows "\<exists>p. filter_pixel Bitmap Sz Flt X Y
           = Inr (Clamp (Y * SizeX Sz + X) 0 (int (length Bitmap) - 1), p)"
proof -
  have "\<exists>a. (if ColourChannel Flt = ChRGBA
        then bindE (array_at Bitmap (Clamp (Y * SizeX Sz + X) 0 (int (length Bitmap) - 1))
               BitmapIndexOutOfRange) (\<lambda>p. Inr (Alpha p))
        else Inr 255) = Inr a"
  proof (cases "ColourChannel Flt = ChRGBA")
    case True
    obtain q where "array_at Bitmap (Clamp (Y * SizeX Sz + X) 0 (int (length Bitmap) - 1))
        BitmapIndexOutOfRange = Inr q"
      using array_at_Clamp [OF assms(1)] by blast
    then show ?thesis using True by (simp add: bindE_def)
  next
    case False
    then show ?thesis by simp
  qed
  then obtain a where a: "(if ColourChannel Flt = ChRGBA
        then bindE (array_at Bitmap (Clamp (Y * SizeX Sz + X) 0 (int (length Bitmap) - 1))
               BitmapIndexOutOfRange) (\<lambda>p. Inr (Alpha p))
        else Inr 255) = Inr a"
    by blast
  have inner: "\<And>filterY temp. \<exists>t. forM (for_range (SizeX (Size Flt))) temp
       (\<lambda>filterX temp'. kernel_cell Bitmap Sz Flt X Y filterY filterX temp') = Inr t"
    by (rule forM_total) (rule kernel_cell_total [OF assms])
  obtain t where t: "forM (for_range (SizeY (Size Flt))) (0, 0, 0) (\<lambda>filterY temp.
        forM (for_range (SizeX (Size Flt))) temp (\<lambda>filterX temp'.
          kernel_cell Bitmap Sz Flt X Y filterY filterX temp')) = Inr t"
    using forM_total [of "\<lambda>filterY temp. forM (for_range (SizeX (Size Flt))) temp
       (\<lambda>filterX temp'. kernel_cell Bitmap Sz Flt X Y filterY filterX temp')", OF inner]
    by blast
  show ?thesis
    by (cases t) (simp add: filter_pixel_def Let_def a t bindE_def)
qed

lemma forM_blocks:
  fixes body :: "'i \<Rightarrow> 'a list \<Rightarrow> error + 'a list"
  assumes "\<And>k s. k < length idxs \<Longrightarrow> length s = n + k * m
             \<Longrightarrow> body (idxs ! k) s = Inr (s @ g (idxs ! k))"
    and "\<And>k. k < length idxs \<Longrightarrow> length (g (idxs ! k)) = m"
  shows "length s0 = n \<Longrightarrow> forM idxs s0 body = Inr (s0 @ concat (map g idxs))"
  using assms
proof (induction idxs arbitrary: s0 n)
  case Nil
  then show ?case by simp
next
  case (Cons i rest)
  have step: "body i s0 = Inr (s0 @ g i)"
    using Cons.prems(2) [of 0 s0] Cons.prems(1) by simp
  have len: "length (g i) = m"
    using Cons.prems(3) [of 0] by simp
  have "forM rest (s0 @ g i) body = Inr ((s0 @ g i) @ concat (map g rest))"
  proof (rule Cons.IH [of "s0 @ g i" "n + m"])
    show "length (s0 @ g i) = n + m" using Cons.prems(1) len by simp
  next
    fix k and s :: "'a list"
    assume "k < length rest" and "length s = n + m + k * m"
    then show "body (rest ! k) s = Inr (s @ g (rest ! k))"
      using Cons.prems(2) [of "Suc k" s] by simp
  next
    fix k assume "k < length rest"
    then show "length (g (rest ! k)) = m"
      using Cons.prems(3) [of "Suc k"] by simp
  qed
  then show ?case by (simp add: step)
qed

lemma length_concat_rows:
  assumes "\<And>y. y < h \<Longrightarrow> length (row y) = w"
  shows "length (concat (map row [0..<h])) = h * w"
  using assms by (induction h) simp_all

lemma nth_concat_rows:
  assumes "\<And>y. y < h \<Longrightarrow> length (row y) = w"
  shows "y < h \<Longrightarrow> x < w \<Longrightarrow> concat (map row [0..<h]) ! (y * w + x) = row y ! x"
  using assms
proof (induction h)
  case 0
  then show ?case by simp
next
  case (Suc h)
  have len: "length (concat (map row [0..<h])) = h * w"
    using Suc.prems(3) by (intro length_concat_rows) simp
  show ?case
  proof (cases "y < h")
    case True
    have "y * w + x < y * w + w" using Suc.prems(2) by simp
    also have "\<dots> = Suc y * w" by simp
    also have "\<dots> \<le> h * w" using True by (intro mult_le_mono1) simp
    finally have "y * w + x < h * w" .
    then show ?thesis
      using Suc.IH [OF True Suc.prems(2)] Suc.prems(3) len by (simp add: nth_append)
  next
    case False
    then have "y = h" using Suc.prems(1) by simp
    then show ?thesis using len by (simp add: nth_append)
  qed
qed

lemma Clamp_in_grid:
  fixes W H X Y :: int
  assumes "0 \<le> X" "X < W" "0 \<le> Y" "Y < H"
  shows "Clamp (Y * W + X) 0 (W * H - 1) = Y * W + X"
proof -
  have "Y * W \<le> (H - 1) * W"
    using assms by (intro mult_right_mono) simp_all
  then have "Y * W + X \<le> W * H - 1"
    using assms(2) by (simp add: algebra_simps)
  moreover have "0 \<le> Y * W"
    using assms by (intro mult_nonneg_nonneg) simp_all
  ultimately show ?thesis
    using assms(1) by (auto simp: Clamp_def)
qed

lemma EmplaceAt_end: "i = int (length xs) \<Longrightarrow> EmplaceAt xs i v = Inr (xs @ [v])"
  by (simp add: EmplaceAt_def)

lemma length_for_range: "length (for_range n) = nat n"
  by (simp add: for_range_def)

lemma nth_for_range: "k < nat n \<Longrightarrow> for_range n ! k = int k"
  by (simp add: for_range_def)

lemma ApplyBitmapFilter_layout:
  assumes W: "0 < SizeX Sz" and H: "0 < SizeY Sz"
    and len: "int (length Bitmap) = SizeX Sz * SizeY Sz"
    and flt: "Filter Flt \<noteq> []"
  shows "\<exists>out. ApplyBitmapFilter Bitmap Sz Flt = Inr out
           \<and> int (length out) = SizeX Sz * SizeY Sz
           \<and> (\<forall>x y. x < nat (SizeX Sz) \<longrightarrow> y < nat (SizeY Sz) \<longrightarrow>
                filter_pixel Bitmap Sz Flt (int x) (int y)
                  = Inr (int y * SizeX Sz + int x, out ! (y * nat (SizeX Sz) + x)))"
proof -
  define w where "w = nat (SizeX Sz)"
  define h where "h = nat (SizeY Sz)"
  define px where "px X Y = snd (projr (filter_pixel Bitmap Sz Flt X Y))" for X Y
  define row where "row Y = concat (map (\<lambda>X. [px X Y]) (for_range (SizeX Sz)))" for Y
  define out where "out = concat (map row (for_range (SizeY Sz)))"
  have Ww: "SizeX Sz = int w" and Hh: "SizeY Sz = int h"
    using W H by (simp_all add: w_def h_def)
  have "0 < SizeX Sz * SizeY Sz" using W H by (rule mult_pos_pos)
  then have ne: "Bitmap \<noteq> []" using len by auto
  have pixel: "filter_pixel Bitmap Sz Flt (int x) (int y) = Inr (int y * SizeX Sz + int x, px (int x) (int y))"
    if "x < w" "y < h" for x y
  proof -
    obtain p where p: "filter_pixel Bitmap Sz Flt (int x) (int y)
        = Inr (Clamp (int y * SizeX Sz + int x) 0 (int (length Bitmap) - 1), p)"
      using filter_pixel_total [OF ne flt] by blast
    have "Clamp (int y * SizeX Sz + int x) 0 (SizeX Sz * SizeY Sz - 1) = int y * SizeX Sz + int x"
      using that by (intro Clamp_in_grid) (simp_all add: Ww Hh)
    then show ?thesis by (simp add: p px_def len)
  qed
  have inner: "forM (for_range (SizeX Sz)) s (\<lambda>X Out'.
         bindE (filter_pixel Bitmap Sz Flt X (int y)) (\<lambda>r.
           case r of (pixelIndex, pixel) \<Rightarrow> EmplaceAt Out' pixelIndex pixel))
       = Inr (s @ row (int y))"
    if "y < h" "length s = y * w" for y and s :: "FColor list"
    unfolding row_def
  proof (rule forM_blocks [where n = "y * w" and m = 1])
    show "length s = y * w" by (rule that)
  next
    fix k and s' :: "FColor list"
    assume k: "k < length (for_range (SizeX Sz))" and s': "length s' = y * w + k * 1"
    have kw: "k < w" using k by (simp add: length_for_range w_def)
    have idx: "for_range (SizeX Sz) ! k = int k"
      using kw by (simp add: nth_for_range w_def)
    have "EmplaceAt s' (int y * SizeX Sz + int k) (px (int k) (int y)) = Inr (s' @ [px (int k) (int y)])"
      by (rule EmplaceAt_end) (simp add: s' Ww)
    then show "bindE (filter_pixel Bitmap Sz Flt (for_range (SizeX Sz) ! k) (int y)) (\<lambda>r.
           case r of (pixelIndex, pixel) \<Rightarrow> EmplaceAt s' pixelIndex pixel)
        = Inr (s' @ [px (for_range (SizeX Sz) ! k) (int y)])"
      by (simp add: idx pixel [OF kw that(1)] bindE_def)
  next
    fix k assume "k < length (for_range (SizeX Sz))"
    show "length [px (for_range (SizeX Sz) ! k) (int y)] = 1" by simp
  qed
  have row_len: "length (row Y) = w" for Y
    by (simp add: row_def length_for_range w_def length_concat sum_list_triv comp_def)
  have outer: "ApplyBitmapFilter Bitmap Sz Flt = Inr ([] @ out)"
    unfolding ApplyBitmapFilter_def out_def
  proof (rule forM_blocks [where n = 0 and m = w])
    show "length ([] :: FColor list) = 0" by simp
  next
    fix k and s :: "FColor list"
    assume k: "k < length (for_range (SizeY Sz))" and s: "length s = 0 + k * w"
    have kh: "k < h" using k by (simp add: length_for_range h_def)
    have idx: "for_range (SizeY Sz) ! k = int k"
      using kh by (simp add: nth_for_range h_def)
    show "forM (for_range (SizeX Sz)) s (\<lambda>X Out'.
         bindE (filter_pixel Bitmap Sz Flt X (for_range (SizeY Sz) ! k)) (\<lambda>r.
           case r of (pixelIndex, pixel) \<Rightarrow> EmplaceAt Out' pixelIndex pixel))
       = Inr (s @ row (for_range (SizeY Sz) ! k))"
      unfolding idx using s by (intro inner [OF kh]) simp
  next
    fix k assume "k < length (for_range (SizeY Sz))"
    show "length (row (for_range (SizeY Sz) ! k)) = w" by (rule row_len)
  qed
  have out_rows: "out = concat (map (\<lambda>y. row (int y)) [0..<h])"
    by (simp add: out_def for_range_def h_def comp_def)
  have out_len: "length out = h * w"
    unfolding out_rows by (rule length_concat_rows) (rule row_len)
  have out_nth: "out ! (y * w + x) = px (int x) (int y)" if "x < w" "y < h" for x y
  proof -
    have "out ! (y * w + x) = row (int y) ! x"
      unfolding out_rows by (rule nth_concat_rows [OF row_len that(2) that(1)])
    also have "row (int y) = map (\<lambda>X. px X (int y)) (for_range (SizeX Sz))"
      by (simp add: row_def concat_map_singleton)
    also have "\<dots> ! x = px (int x) (int y)"
      using that(1) by (simp add: length_for_range nth_for_range w_def)
    finally show ?thesis .
  qed
  have "int (length out) = SizeX Sz * SizeY Sz"
    by (simp add: out_len Ww Hh)
  moreover have "\<forall>x y. x < nat (SizeX Sz) \<longrightarrow> y < nat (SizeY Sz) \<longrightarrow>
                filter_pixel Bitmap Sz Flt (int x) (int y)
                  = Inr (int y * SizeX Sz + int x, out ! (y * nat (SizeX Sz) + x))"
    using pixel out_nth by (simp add: w_def h_def)
  ultimately show ?thesis using outer by simp
qed

lemma forM_grows:
  fixes body :: "'i \<Rightarrow> 'a list \<Rightarrow> error + 'a list"
  assumes "\<And>k s. k < length idxs \<Longrightarrow> length s = n + k * m
             \<Longrightarrow> \<exists>s'. body (idxs ! k) s = Inr s' \<and> length s' = length s + m"
  shows "length s0 = n \<Longrightarrow> \<exists>s'. forM idxs s0 body = Inr s' \<and> length s' = n + length idxs * m"
  using assms
proof (induction idxs arbitrary: s0 n)
  case Nil
  then show ?case by simp
next
  case (Cons i rest)
  obtain s1 where s1: "body i s0 = Inr s1" "length s1 = n + m"
    using Cons.prems(2) [of 0 s0] Cons.prems(1) by auto
  have "\<exists>s'. forM rest s1 body = Inr s' \<and> length s' = (n + m) + length rest * m"
  proof (rule Cons.IH [of s1 "n + m"])
    show "length s1 = n + m" by (rule s1(2))
  next
    fix k and s :: "'a list"
    assume "k < length rest" and "length s = n + m + k * m"
    then show "\<exists>s'. body (rest ! k) s = Inr s' \<and> length s' = length s + m"
      using Cons.prems(2) [of "Suc k" s] by simp
  qed
  then show ?case by (simp add: s1(1) add.assoc add.commute [of m])
qed

lemma Clamp_le:
  fixes v n :: int
  shows "0 \<le> v \<Longrightarrow> Clamp v 0 n \<le> v"
  by (auto simp: Clamp_def)

lemma ApplyBitmapFilter_total:
  assumes ne: "Bitmap \<noteq> []" and flt: "Filter Flt \<noteq> []"
  shows "\<exists>out. ApplyBitmapFilter Bitmap Sz Flt = Inr out
           \<and> length out = nat (SizeY Sz) * nat (SizeX Sz)"
proof -
  define w where "w = nat (SizeX Sz)"
  have pos: "0 < int (length Bitmap)" using ne by simp
  have cell: "\<exists>s'. bindE (filter_pixel Bitmap Sz Flt (int x) (int y)) (\<lambda>r.
           case r of (pixelIndex, pixel) \<Rightarrow> EmplaceAt s pixelIndex pixel) = Inr s'
         \<and> length s' = length s + 1"
    if "x < w" "length s = y * w + x" for x y and s :: "FColor list"
  proof -
    let ?i = "Clamp (int y * SizeX Sz + int x) 0 (int (length Bitmap) - 1)"
    obtain p where p: "filter_pixel Bitmap Sz Flt (int x) (int y) = Inr (?i, p)"
      using filter_pixel_total [OF ne flt] by blast
    have W: "SizeX Sz = int w" using that(1) by (simp add: w_def)
    have "0 \<le> int y * SizeX Sz + int x" by (simp add: W)
    then have "?i \<le> int y * SizeX Sz + int x" by (rule Clamp_le)
    then have "?i \<le> int (length s)" by (simp add: that(2) W)
    moreover have "0 \<le> ?i" by (rule Clamp_index(1) [OF pos])
    ultimately show ?thesis by (simp add: p bindE_def EmplaceAt_def)
  qed
  have inner: "\<exists>s'. forM (for_range (SizeX Sz)) s (\<lambda>X Out'.
         bindE (filter_pixel Bitmap Sz Flt X (int y)) (\<lambda>r.
           case r of (pixelIndex, pixel) \<Rightarrow> EmplaceAt Out' pixelIndex pixel)) = Inr s'
       \<and> length s' = y * w + length (for_range (SizeX Sz)) * 1"
    if "length s = y * w" for y and s :: "FColor list"
  proof (rule forM_grows [where n = "y * w" and m = 1])
    show "length s = y * w" by (rule that)
  next
    fix k and s' :: "FColor list"
    assume k: "k < length (for_range (SizeX Sz))" and s': "length s' = y * w + k * 1"
    have kw: "k < w" using k by (simp add: length_for_range w_def)
    have idx: "for_range (SizeX Sz) ! k = int k"
      using kw by (simp add: nth_for_range w_def)
    show "\<exists>s''. bindE (filter_pixel Bitmap Sz Flt (for_range (SizeX Sz) ! k) (int y)) (\<lambda>r.
           case r of (pixelIndex, pixel) \<Rightarrow> EmplaceAt s' pixelIndex pixel) = Inr s''
         \<and> length s'' = length s' + 1"
      unfolding idx using s' by (intro cell [OF kw]) simp
  qed
  have "\<exists>s'. ApplyBitmapFilter Bitmap Sz Flt = Inr s'
      \<and> length s' = 0 + length (for_range (SizeY Sz)) * w"
    unfolding ApplyBitmapFilter_def
  proof (rule forM_grows [where n = 0 and m = w])
    show "length ([] :: FColor list) = 0" by simp
  next
    fix k and s :: "FColor list"
    assume k: "k < length (for_range (SizeY Sz))" and s: "length s = 0 + k * w"
    have idx: "for_range (SizeY Sz) ! k = int k"
      using k by (simp add: length_for_range nth_for_range)
    show "\<exists>s'. forM (for_range (SizeX Sz)) s (\<lambda>X Out'.
         bindE (filter_pixel Bitmap Sz Flt X (for_range (SizeY Sz) ! k)) (\<lambda>r.
           case r of (pixelIndex, pixel) \<Rightarrow> EmplaceAt Out' pixelIndex pixel)) = Inr s'
       \<and> length s' = length s + w"
      unfolding idx using inner [of s k] s by (simp add: length_for_range w_def)
  qed
  then show ?thesis by (simp add: length_for_range w_def)
qed

lemma acc_white:
  "accumulate 0 255 1 (11111111 / 100000000) 0 = 28"
  "accumulate 28 255 1 (11111111 / 100000000) 0 = 56"
  "accumulate 56 255 1 (11111111 / 100000000) 0 = 84"
  "accumulate 84 255 1 (11111111 / 100000000) 0 = 112"
  "accumulate 112 255 1 (11111111 / 100000000) 0 = 140"
  "accumulate 140 255 1 (11111111 / 100000000) 0 = 168"
  "accumulate 168 255 1 (11111111 / 100000000) 0 = 196"
  "accumulate 196 255 1 (11111111 / 100000000) 0 = 224"
  "accumulate 224 255 1 (11111111 / 100000000) 0 = 252"
  by (simp_all add: accumulate_def to_uint8_def trunc_toward_zero_def promote_def)

lemma array_at_Clamp_uniform:
  assumes "xs \<noteq> []" and "\<forall>x\<in>set xs. x = c"
  shows "array_at xs (Clamp v 0 (int (length xs) - 1)) e = Inr c"
proof -
  have pos: "0 < int (length xs)" using assms(1) by simp
  have "nat (Clamp v 0 (int (length xs) - 1)) < length xs"
    using Clamp_index [OF pos, of v] by simp
  then have "xs ! nat (Clamp v 0 (int (length xs) - 1)) = c"
    using assms(2) nth_mem by blast
  then show ?thesis
    using Clamp_index [OF pos, of v] by (simp add: array_at_def)
qed

lemma kernel_cell_uniform:
  assumes "Bitmap \<noteq> []" and "\<forall>p\<in>set Bitmap. p = c"
    and "Filter Flt \<noteq> []" and "\<forall>w\<in>set (Filter Flt). w = w0"
  shows "kernel_cell Bitmap Sz Flt X Y filterY filterX (r, g, b)
         = Inr (accumulate r (Red c) w0 (Factor Flt) (Bias Flt),
                accumulate g (Green c) w0 (Factor Flt) (Bias Flt),
                accumulate b (Blue c) w0 (Factor Flt) (Bias Flt))"
  by (simp add: kernel_cell_def Let_def bindE_def
      array_at_Clamp_uniform [OF assms(1,2)] array_at_Clamp_uniform [OF assms(3,4)])

lemma for_range_numeral: "for_range 1 = [0]" "for_range 2 = [0, 1]" "for_range 3 = [0, 1, 2]"
  by (simp_all add: for_range_def upt_rec)

lemma filter_pixel_BoxBlur_white:
  assumes "Bitmap \<noteq> []" and "\<forall>p\<in>set Bitmap. p = FColor4 255 255 255 255"
  shows "filter_pixel Bitmap Sz (GetBitmapFilter BoxBlur False ch) X Y
         = Inr (Clamp (Y * SizeX Sz + X) 0 (int (length Bitmap) - 1), FColor4 252 252 252 255)"
proof -
  define F where "F = GetBitmapFilter BoxBlur False ch"
  have F: "Filter F \<noteq> []" "\<forall>w\<in>set (Filter F). w = 1"
    and sz: "SizeX (Size F) = 3" "SizeY (Size F) = 3"
    and fb: "Factor F = 11111111 / 100000000" "Bias F = 0"
    and ch: "ColourChannel F = ChRGBA"
    by (simp_all add: F_def GetBitmapFilter_def FBitmapFilter5_def FImageSize2_def)
  have white: "Red (FColor4 255 255 255 255) = 255" "Green (FColor4 255 255 255 255) = 255"
    "Blue (FColor4 255 255 255 255) = 255" "Alpha (FColor4 255 255 255 255) = 255"
    by (simp_all add: FColor4_def)
  have cell: "kernel_cell Bitmap Sz F X Y filterY filterX (r, g, b)
         = Inr (accumulate r 255 1 (11111111 / 100000000) 0,
                accumulate g 255 1 (11111111 / 100000000) 0,
                accumulate b 255 1 (11111111 / 100000000) 0)" for filterY filterX r g b
    by (simp only: kernel_cell_uniform [OF assms F] white fb)
  have loop: "forM (for_range (SizeY (Size F))) (0, 0, 0) (\<lambda>filterY temp.
        forM (for_range (SizeX (Size F))) temp (\<lambda>filterX temp'.
          kernel_cell Bitmap Sz F X Y filterY filterX temp')) = Inr (252, 252, 252)"
    by (simp only: sz for_range_numeral forM.simps cell acc_white sum.case)
  have alpha: "array_at Bitmap (Clamp (Y * SizeX Sz + X) 0 (int (length Bitmap) - 1))
      BitmapIndexOutOfRange = Inr (FColor4 255 255 255 255)"
    by (rule array_at_Clamp_uniform [OF assms])
  have out: "SetPixelColourChannel (FColor4 252 252 252 255) ChRGBA = FColor4 252 252 252 255"
    by (simp add: SetPixelColourChannel_def FColor4_def)
  have "filter_pixel Bitmap Sz F X Y
         = Inr (Clamp (Y * SizeX Sz + X) 0 (int (length Bitmap) - 1), FColor4 252 252 252 255)"
    by (simp add: filter_pixel_def Let_def loop ch alpha white out bindE_def)
  then show ?thesis by (simp only: F_def)
qed

lemma BoxBlur_white_any_size:
  assumes W: "0 < SizeX Sz" and H: "0 < SizeY Sz"
  shows "ApplyBitmapFilter (replicate (nat (SizeX Sz * SizeY Sz)) (FColor4 255 255 255 255)) Sz
           (GetBitmapFilter BoxBlur False ch)
         = Inr (replicate (nat (SizeX Sz * SizeY Sz)) (FColor4 252 252 252 255))"
proof -
  define w where "w = nat (SizeX Sz)"
  define h where "h = nat (SizeY Sz)"
  let ?B = "replicate (nat (SizeX Sz * SizeY Sz)) (FColor4 255 255 255 255)"
  let ?F = "GetBitmapFilter BoxBlur False ch"
  have Ww: "SizeX Sz = int w" and Hh: "SizeY Sz = int h"
    using W H by (simp_all add: w_def h_def)
  have wpos: "0 < w" and hpos: "0 < h" using W H by (simp_all add: w_def h_def)
  have n: "nat (SizeX Sz * SizeY Sz) = h * w"
    by (simp add: Ww Hh nat_mult_distrib mult.commute)
  have "0 < h * w" using wpos hpos by simp
  then have ne: "?B \<noteq> []" by (simp add: n)
  have uni: "\<forall>p\<in>set ?B. p = FColor4 255 255 255 255" by simp
  have len: "int (length ?B) = SizeX Sz * SizeY Sz" by (simp add: Ww Hh)
  have flt: "Filter ?F \<noteq> []" by (simp add: GetBitmapFilter_def FBitmapFilter5_def FImageSize2_def)
  obtain out where out: "ApplyBitmapFilter ?B Sz ?F = Inr out"
      "int (length out) = SizeX Sz * SizeY Sz"
      "\<forall>x y. x < nat (SizeX Sz) \<longrightarrow> y < nat (SizeY Sz) \<longrightarrow>
                filter_pixel ?B Sz ?F (int x) (int y)
                  = Inr (int y * SizeX Sz + int x, out ! (y * nat (SizeX Sz) + x))"
    using ApplyBitmapFilter_layout [OF W H len flt] by blast
  have olen: "length out = h * w"
    using out(2) n by (metis nat_int)
  have "out ! k = FColor4 252 252 252 255" if "k < h * w" for k
  proof -
    have x: "k mod w < w" using wpos by simp
    have y: "k div w < h" using that wpos by (simp add: less_mult_imp_div_less)
    have "filter_pixel ?B Sz ?F (int (k mod w)) (int (k div w))
        = Inr (int (k div w) * SizeX Sz + int (k mod w), out ! (k div w * w + k mod w))"
      using out(3) x y by (simp add: w_def h_def)
    then have "out ! (k div w * w + k mod w) = FColor4 252 252 252 255"
      by (simp add: filter_pixel_BoxBlur_white [OF ne uni])
    then show ?thesis by simp
  qed
  then have "out = replicate (h * w) (FColor4 252 252 252 255)"
    using olen by (intro nth_equalityI) simp_all
  with out(1) have "ApplyBitmapFilter ?B Sz ?F = Inr (replicate (h * w) (FColor4 252 252 252 255))"
    by simp
  then show ?thesis by (simp only: n)
qed

lemmas filter_eval = ApplyBitmapFilter_def filter_pixel_def kernel_cell_def
  Clamp_def cdiv_def array_at_def bindE_def EmplaceAt_def SetPixelColourChannel_def
  FColor4_def FBitmapFilter5_def FImageSize2_def Let_def for_range_numeral

text \<open>
  C6. The claim: \<^verbatim>\<open>ApplyBitmapFilter\<close> with the BoxBlur kernel of \<^verbatim>\<open>GetBitmapFilter\<close>
  returns a uniform bitmap unchanged. The code does not: the accumulators
  \<^verbatim>\<open>tempRed\<close>, \<^verbatim>\<open>tempGreen\<close>, \<^verbatim>\<open>tempBlue\<close> are \<^verbatim>\<open>uint8\<close>, so each of the nine
  steps stores the integer part of its sum. For the white 2x2 bitmap a step adds
  255 * 0.11111111 = 28.33..., the accumulator goes 28, 56, ..., 252, and every output
  pixel is (252,252,252,255). \<open>BoxBlur_white_any_size\<close> is the same for every positive
  width and height.
\<close>

theorem BoxBlur_uniform_white:
  "ApplyBitmapFilter
     [FColor4 255 255 255 255, FColor4 255 255 255 255,
      FColor4 255 255 255 255, FColor4 255 255 255 255]
     \<lparr>SizeX = 2, SizeY = 2\<rparr> (GetBitmapFilter BoxBlur False ChRGB)
   = Inr [FColor4 252 252 252 255, FColor4 252 252 252 255,
          FColor4 252 252 252 255, FColor4 252 252 252 255]"
  by (simp add: ApplyBitmapFilter_def for_range_numeral filter_pixel_BoxBlur_white bindE_def
      Clamp_def EmplaceAt_def)

text \<open>
  C9. The claim: with a weight list whose length differs from the kernel's
  \<open>Size.X * Size.Y\<close>, no weight is read out of bounds, the index being clamped into
  \<open>[0, weights.length - 1]\<close>. With at least one weight that is so, and on a non-empty
  bitmap the filter returns (\<open>ApplyBitmapFilter_total\<close>). For the empty weight list the
  upper bound of the clamp is \<open>- 1\<close>: \<^verbatim>\<open>FMath::Clamp(0, 0, -1)\<close> is \<open>- 1\<close>, and the
  first kernel cell reads \<^verbatim>\<open>filter[-1]\<close>.
\<close>

theorem ApplyBitmapFilter_empty_weights:
  "ApplyBitmapFilter [FColor4 10 20 30 255] \<lparr>SizeX = 1, SizeY = 1\<rparr>
     (FBitmapFilter5 (FImageSize2 3 3) [] 1 0 ChRGBA) = Inl FilterIndexOutOfRange"
  by (simp add: filter_eval)

text \<open>
  C10. The claim: for a bitmap of \<open>Size.X * Size.Y\<close> pixels, both positive, and every
  filter, \<^verbatim>\<open>ApplyBitmapFilter\<close> returns \<open>Size.X * Size.Y\<close> pixels, the one of \<open>(x, y)\<close>
  at \<open>y * Size.X + x\<close>. For the filters with a weight this is
  \<open>ApplyBitmapFilter_layout\<close>. For a 3x3 kernel with the empty weight list the code
  returns no bitmap: on the 2x1 bitmap below the first kernel cell of the first pixel
  reads \<^verbatim>\<open>filter[-1]\<close>.
\<close>

theorem ApplyBitmapFilter_no_bitmap:
  "ApplyBitmapFilter [FColor4 1 2 3 255, FColor4 4 5 6 255] \<lparr>SizeX = 2, SizeY = 1\<rparr>
     (FBitmapFilter2 (FImageSize2 3 3) []) = Inl FilterIndexOutOfRange"
  by (simp add: filter_eval FBitmapFilter2_def)

end
